theory Spec2Isabelle
  imports Complex_Main
begin

section \<open>Python values used by the retrieval and escalation pipeline\<close>

text \<open>
  A Python \<open>str\<close> is a sequence of Unicode code points; it is modelled as the list of
  these code points, so that \<open>len\<close>, \<open>strip\<close> and comparison mean what they mean in
  the source. Literals of the source that are plain ASCII are written with \<open>ascii\<close>;
  the Russian literals are given by their code points.
\<close>

type_synonym pystr = "nat list"

definition ascii :: "string \<Rightarrow> pystr" where
  "ascii s = map of_char s"

text \<open>
  Exceptions are values. \<open>KeyError\<close>, \<open>IndexError\<close> and \<open>TypeError\<close> are the Python
  built-ins raised by dictionary access, list indexing and operations on \<open>None\<close>;
  \<open>HTTPException\<close> carries the status code and the detail string; \<open>DatabaseError\<close>,
  \<open>ProviderError\<close> stand for what the relational store and the embedding, index and
  text-generation back ends raise. \<open>ValueError\<close> is the Python built-in that the text
  splitter raises on invalid chunking parameters (the specification calls this
  failure \<open>ConfigError\<close>); \<open>VectorIndexError\<close> is the name the specification gives to
  a rejected upsert.
\<close>

datatype py_error =
    KeyError
  | IndexError
  | TypeError
  | DatabaseError
  | ProviderError pystr
  | HTTPException nat pystr
  | ValueError
  | VectorIndexError

text \<open>The value found under a dictionary key: the key may be missing, or hold \<open>None\<close>.\<close>

datatype 'a field = Absent | PyNone | Val 'a

text \<open>\<open>d.get(key)\<close>: a missing key reads as \<open>None\<close>.\<close>

fun dict_get :: "'a field \<Rightarrow> 'a option" where
  "dict_get Absent = None"
| "dict_get PyNone = None"
| "dict_get (Val v) = Some v"

text \<open>\<open>xs[i]\<close> for a non-negative index: out of range raises \<open>IndexError\<close>.\<close>

definition py_index :: "'a list \<Rightarrow> nat \<Rightarrow> py_error + 'a" where
  "py_index xs i = (if i < length xs then Inr (xs ! i) else Inl IndexError)"

section \<open>The ticket store (db.py, models.py)\<close>

text \<open>
  The rows of the tables \<open>users\<close>, \<open>tickets\<close> and \<open>questions\<close>. The timestamp
  columns are left out: no function modelled here reads them. Integer primary keys
  with \<open>autoincrement\<close> are drawn from a counter kept with the table.
\<close>

record user_row =
  u_telegram_id :: int
  u_username :: "pystr option"
  u_full_name :: pystr
  u_is_admin :: bool

record ticket_row =
  t_ticket_id :: nat
  t_telegram_id :: int
  t_active :: bool
  t_closed_by_user :: bool

record question_row =
  q_question_id :: nat
  q_telegram_id :: int
  q_ticket_id :: nat
  q_text :: pystr
  q_subject :: pystr

text \<open>The Telegram user object passed as \<open>from_user\<close> (aiogram \<open>types.User\<close>).\<close>

record tg_user =
  tg_username :: "pystr option"
  tg_first_name :: pystr
  tg_last_name :: "pystr option"

text \<open>
  The database. \<open>available\<close> says whether the database answers: when it does not,
  the first statement of a session raises.
\<close>

record database =
  available :: bool
  users :: "user_row list"
  tickets :: "ticket_row list"
  questions :: "question_row list"
  next_ticket_id :: nat
  next_question_id :: nat

text \<open>
  One invocation of \<open>add_question\<close> with its arguments. The list of invocations is
  kept beside the database only to state how often the ticket collaborator was
  called; the program never reads it.
\<close>

record add_question_call =
  call_user_id :: int
  call_question_text :: pystr
  call_subject :: pystr
  call_from_user :: "tg_user option"

record world =
  db :: database
  add_question_calls :: "add_question_call list"

text \<open>\<open>str.isspace\<close> on one code point, and \<open>str.strip()\<close>.\<close>

definition py_isspace :: "nat \<Rightarrow> bool" where
  "py_isspace c \<longleftrightarrow>
     (9 \<le> c \<and> c \<le> 13) \<or> (28 \<le> c \<and> c \<le> 32) \<or> c = 133 \<or> c = 160 \<or> c = 5760 \<or>
     (8192 \<le> c \<and> c \<le> 8202) \<or> c = 8232 \<or> c = 8233 \<or> c = 8239 \<or> c = 8287 \<or> c = 12288"

definition py_strip :: "pystr \<Rightarrow> pystr" where
  "py_strip s = rev (dropWhile py_isspace (rev (dropWhile py_isspace s)))"

text \<open>\<open>x or ''\<close> for an optional string.\<close>

fun or_empty :: "pystr option \<Rightarrow> pystr" where
  "or_empty None = []"
| "or_empty (Some s) = s"

text \<open>\<open>f"{from_user.first_name or ''} {from_user.last_name or ''}".strip()\<close>\<close>

definition full_name_of :: "tg_user \<Rightarrow> pystr" where
  "full_name_of fu = py_strip (tg_first_name fu @ [32] @ or_empty (tg_last_name fu))"

text \<open>The literals \<open>"unknown_user"\<close> and \<open>"Neizvestno"\<close> (in Russian) of \<open>add_question\<close>.\<close>

definition unknown_user :: pystr where
  "unknown_user = ascii ''unknown_user''"

definition unknown_full_name :: pystr where
  "unknown_full_name = [1053, 1077, 1080, 1079, 1074, 1077, 1089, 1090, 1085, 1086]"

text \<open>The branch of \<open>add_question\<close> for a user that is not in the table yet.\<close>

definition new_user_row :: "int \<Rightarrow> tg_user option \<Rightarrow> user_row" where
  "new_user_row user_id from_user =
     \<lparr>u_telegram_id = user_id,
      u_username =
        (case from_user of
           None \<Rightarrow> Some unknown_user
         | Some fu \<Rightarrow>
             (case tg_username fu of
                None \<Rightarrow> Some unknown_user
              | Some n \<Rightarrow> if n = [] then Some unknown_user else Some n)),
      u_full_name = (case from_user of None \<Rightarrow> unknown_full_name | Some fu \<Rightarrow> full_name_of fu),
      u_is_admin = False\<rparr>"

text \<open>The branch for a known user: the row is rewritten when \<open>from_user\<close> differs from it.\<close>

definition refresh_user_row :: "tg_user option \<Rightarrow> user_row \<Rightarrow> user_row" where
  "refresh_user_row from_user user =
     (case from_user of
        None \<Rightarrow> user
      | Some fu \<Rightarrow>
          if u_username user \<noteq> tg_username fu \<or> u_full_name user \<noteq> full_name_of fu
          then user\<lparr>u_username := tg_username fu, u_full_name := full_name_of fu\<rparr>
          else user)"

text \<open>
  \<open>add_question\<close> as \<open>search_similar_docs\<close> calls it, that is with \<open>media=None\<close>, so
  that the loop over media files is not entered. \<open>telegram_id\<close> is the primary key
  of \<open>users\<close>: the row found by the query is the one row with that key.
\<close>

definition add_question ::
  "int \<Rightarrow> pystr \<Rightarrow> pystr \<Rightarrow> tg_user option \<Rightarrow> world \<Rightarrow> (py_error + question_row) \<times> world" where
  "add_question user_id question_text subject from_user w =
     (let w1 = w\<lparr>add_question_calls := add_question_calls w @
                  [\<lparr>call_user_id = user_id, call_question_text = question_text,
                    call_subject = subject, call_from_user = from_user\<rparr>]\<rparr>;
          d = db w1
      in if \<not> available d then (Inl DatabaseError, w1)
         else
           let us = (case find (\<lambda>u. u_telegram_id u = user_id) (users d) of
                       None \<Rightarrow> users d @ [new_user_row user_id from_user]
                     | Some user \<Rightarrow>
                         map (\<lambda>u. if u_telegram_id u = user_id
                                   then refresh_user_row from_user u else u) (users d));
               ticket = \<lparr>t_ticket_id = next_ticket_id d, t_telegram_id = user_id,
                         t_active = True, t_closed_by_user = False\<rparr>;
               new_question = \<lparr>q_question_id = next_question_id d, q_telegram_id = user_id,
                               q_ticket_id = t_ticket_id ticket, q_text = question_text,
                               q_subject = subject\<rparr>;
               d' = d\<lparr>users := us,
                      tickets := tickets d @ [ticket],
                      questions := questions d @ [new_question],
                      next_ticket_id := Suc (next_ticket_id d),
                      next_question_id := Suc (next_question_id d)\<rparr>
           in (Inr new_question, w1\<lparr>db := d'\<rparr>))"

section \<open>Retrieval with threshold and escalation (chains/chroma\_utils.py)\<close>

text \<open>
  What \<open>knowledge_base.query\<close> returns: a dictionary with one list per query text
  under each of the keys \<open>documents\<close>, \<open>distances\<close> and \<open>metadatas\<close>. A stored entry
  may have no document, in which case Chroma reports \<open>None\<close> for it. Distances are
  Python floats; they are only compared, and on finite floats the comparison is the
  order of the reals.
\<close>

datatype doc_value = DocStr pystr | DocNone

type_synonym metadata = "(pystr \<times> pystr) list"

record query_results =
  documents :: "doc_value list list field"
  distances :: "real list list field"
  metadatas :: "metadata list list field"

text \<open>
  The collection as \<open>search_similar_docs\<close> uses it: its \<open>query\<close> method for one query
  text and \<open>n_results\<close>. The call may raise; it may return \<open>None\<close>.
\<close>

type_synonym knowledge_base_query = "pystr \<Rightarrow> int \<Rightarrow> py_error + query_results option"

text \<open>An element of the returned list, the dictionary \<open>{"text": doc}\<close>.\<close>

record retrieved_doc =
  doc_text :: pystr

text \<open>The default of the parameter \<open>subject\<close>, \<open>"Novyi vopros"\<close> in Russian ("New question").\<close>

definition default_subject :: pystr where
  "default_subject = [1053, 1086, 1074, 1099, 1081, 32, 1074, 1086, 1087, 1088, 1086, 1089]"

text \<open>\<open>results.get('metadatas', [[]])[idx]\<close>\<close>

fun metadata_at :: "metadata list list field \<Rightarrow> nat \<Rightarrow> py_error + metadata list" where
  "metadata_at Absent idx = py_index [[]] idx"
| "metadata_at PyNone idx = Inl TypeError"
| "metadata_at (Val ms) idx = py_index ms idx"

text \<open>
  The inner loop over \<open>zip(doc_list, dist_list)\<close>. Each round first reads the
  metadata of the query, then drops the entry when \<open>distance > threshold\<close>, then
  appends it when the document is a string.
\<close>

fun inner_loop ::
  "metadata list list field \<Rightarrow> nat \<Rightarrow> real \<Rightarrow> (doc_value \<times> real) list \<Rightarrow>
   retrieved_doc list \<Rightarrow> py_error + retrieved_doc list" where
  "inner_loop ms idx threshold [] processed_docs = Inr processed_docs"
| "inner_loop ms idx threshold ((doc, distance) # rest) processed_docs =
     (case metadata_at ms idx of
        Inl e \<Rightarrow> Inl e
      | Inr metadata \<Rightarrow>
          if distance > threshold then inner_loop ms idx threshold rest processed_docs
          else (case doc of
                  DocStr s \<Rightarrow>
                    inner_loop ms idx threshold rest (processed_docs @ [\<lparr>doc_text = s\<rparr>])
                | DocNone \<Rightarrow> inner_loop ms idx threshold rest processed_docs))"

text \<open>The outer loop over \<open>enumerate(zip(results['documents'], results['distances']))\<close>.\<close>

fun outer_loop ::
  "metadata list list field \<Rightarrow> real \<Rightarrow> nat \<Rightarrow> (doc_value list \<times> real list) list \<Rightarrow>
   retrieved_doc list \<Rightarrow> py_error + retrieved_doc list" where
  "outer_loop ms threshold idx [] processed_docs = Inr processed_docs"
| "outer_loop ms threshold idx ((doc_list, dist_list) # rest) processed_docs =
     (case inner_loop ms idx threshold (zip doc_list dist_list) processed_docs of
        Inl e \<Rightarrow> Inl e
      | Inr processed_docs' \<Rightarrow> outer_loop ms threshold (Suc idx) rest processed_docs')"

text \<open>
  The body of the \<open>try\<close> block. A dictionary returned by Chroma always has the key
  \<open>ids\<close> and is true; an empty dictionary has no key \<open>documents\<close> and leaves through
  the second half of the test, so \<open>not results\<close> is the test for \<open>None\<close>.
  \<open>not results.get('documents')\<close> holds for a missing key, for \<open>None\<close> and for \<open>[]\<close>.
\<close>

definition search_body ::
  "knowledge_base_query \<Rightarrow> pystr \<Rightarrow> int \<Rightarrow> real \<Rightarrow> int option \<Rightarrow> pystr \<Rightarrow> tg_user option \<Rightarrow>
   world \<Rightarrow> (py_error + retrieved_doc list) \<times> world" where
  "search_body knowledge_base query_text k threshold user_id subject from_user w =
     (case knowledge_base query_text k of
        Inl e \<Rightarrow> (Inl e, w)
      | Inr None \<Rightarrow> (Inr [], w)
      | Inr (Some results) \<Rightarrow>
          (case dict_get (documents results) of
             None \<Rightarrow> (Inr [], w)
           | Some [] \<Rightarrow> (Inr [], w)
           | Some (doc_list # doc_lists) \<Rightarrow>
               (case distances results of
                  Absent \<Rightarrow> (Inl KeyError, w)
                | PyNone \<Rightarrow> (Inl TypeError, w)
                | Val dists \<Rightarrow>
                    (case outer_loop (metadatas results) threshold 0
                            (zip (doc_list # doc_lists) dists) [] of
                       Inl e \<Rightarrow> (Inl e, w)
                     | Inr processed_docs \<Rightarrow>
                         if processed_docs = [] then
                           (case user_id of
                              Some uid \<Rightarrow>
                                (case add_question uid query_text subject from_user w of
                                   (Inl e, w') \<Rightarrow> (Inl e, w')
                                 | (Inr new_question, w') \<Rightarrow> (Inr [], w'))
                            | None \<Rightarrow> (Inr processed_docs, w))
                         else (Inr processed_docs, w)))))"

text \<open>
  \<open>search_similar_docs\<close>: the body inside \<open>try\<close>, and \<open>except Exception\<close>, which logs
  the error and returns the empty list.
\<close>

definition search_similar_docs ::
  "knowledge_base_query \<Rightarrow> pystr \<Rightarrow> int \<Rightarrow> real \<Rightarrow> int option \<Rightarrow> pystr \<Rightarrow> tg_user option \<Rightarrow>
   world \<Rightarrow> (py_error + retrieved_doc list) \<times> world" where
  "search_similar_docs knowledge_base query_text k threshold user_id subject from_user w =
     (case search_body knowledge_base query_text k threshold user_id subject from_user w of
        (Inl e, w') \<Rightarrow> (Inr [], w')
      | (Inr docs, w') \<Rightarrow> (Inr docs, w'))"

text \<open>
  The entries of one \<open>zip(doc_list, dist_list)\<close> that the inner loop appends: those
  whose distance is not above the threshold and whose document is a string. The
  lemmas below relate the loops to this list.
\<close>

fun relevant_docs :: "real \<Rightarrow> (doc_value \<times> real) list \<Rightarrow> retrieved_doc list" where
  "relevant_docs threshold [] = []"
| "relevant_docs threshold ((DocStr s, distance) # rest) =
     (if distance \<le> threshold then \<lparr>doc_text = s\<rparr> # relevant_docs threshold rest
      else relevant_docs threshold rest)"
| "relevant_docs threshold ((DocNone, distance) # rest) = relevant_docs threshold rest"

text \<open>
  Two runs of a loop agree on raising, and the first returns at most as many
  documents as the second.
\<close>

definition same_or_fewer ::
  "py_error + retrieved_doc list \<Rightarrow> py_error + retrieved_doc list \<Rightarrow> bool" where
  "same_or_fewer a b =
     (case a of
        Inl e \<Rightarrow> (case b of Inl e' \<Rightarrow> True | Inr ys \<Rightarrow> False)
      | Inr xs \<Rightarrow> (case b of Inl e' \<Rightarrow> False | Inr ys \<Rightarrow> length xs \<le> length ys))"

section \<open>Chunking and ingestion (chains/rag\_service.py, chains/chroma\_utils.py)\<close>

text \<open>\<open>str(n)\<close> for a non-negative integer: its decimal digits.\<close>

fun py_str :: "nat \<Rightarrow> pystr" where
  "py_str n = (if n < 10 then [48 + n] else py_str (n div 10) @ [48 + n mod 10])"

declare py_str.simps [simp del]

text \<open>An element of the list that \<open>split_text_into_chunks\<close> returns: \<open>{"id": ..., "text": ...}\<close>.\<close>

record chunk =
  chunk_id :: pystr
  chunk_text :: pystr

record text_splitter =
  splitter_chunk_size :: int
  splitter_chunk_overlap :: int

text \<open>
  The constructor of \<open>RecursiveCharacterTextSplitter\<close>. The class belongs to the
  library \<open>langchain_text_splitters\<close> and is not under src/; the definition follows
  the library, whose \<open>TextSplitter.__init__\<close> raises \<open>ValueError\<close> when
  \<open>chunk_size <= 0\<close>, when \<open>chunk_overlap < 0\<close> and when \<open>chunk_overlap > chunk_size\<close>,
  in this order, and accepts every other pair. \<open>split_text_into_chunks\<close> itself
  checks nothing and lets whatever the constructor raises pass.
\<close>

definition RecursiveCharacterTextSplitter :: "int \<Rightarrow> int \<Rightarrow> py_error + text_splitter" where
  "RecursiveCharacterTextSplitter chunk_size chunk_overlap =
     (if chunk_size \<le> 0 then Inl ValueError
      else if chunk_overlap < 0 then Inl ValueError
      else if chunk_overlap > chunk_size then Inl ValueError
      else Inr \<lparr>splitter_chunk_size = chunk_size, splitter_chunk_overlap = chunk_overlap\<rparr>)"

text \<open>
  \<open>split_text_into_chunks\<close>. The splitting algorithm of the library, \<open>split_text\<close>, is
  a parameter: a function of the splitter's configuration and the text that returns
  the pieces or raises.
\<close>

definition split_text_into_chunks ::
  "(text_splitter \<Rightarrow> pystr \<Rightarrow> py_error + pystr list) \<Rightarrow> pystr \<Rightarrow> int \<Rightarrow> int \<Rightarrow>
   py_error + chunk list" where
  "split_text_into_chunks split_text txt chunk_size chunk_overlap =
     (case RecursiveCharacterTextSplitter chunk_size chunk_overlap of
        Inl e \<Rightarrow> Inl e
      | Inr splitter \<Rightarrow>
          (case split_text splitter txt of
             Inl e \<Rightarrow> Inl e
           | Inr chunks \<Rightarrow>
               Inr (map (\<lambda>(i, c). \<lparr>chunk_id = ascii ''chunk_'' @ py_str (i + 1), chunk_text = c\<rparr>)
                      (enumerate 0 chunks))))"

text \<open>An embedding: \<open>embedding.tolist()\<close>, a list of floats that is only stored.\<close>

type_synonym embedding = "real list"

text \<open>
  Modelled from the spec: the Vector Index, a Chroma collection (the library is not
  under src/). It maps a chunk id to the stored text and vector; \<open>upsert\<close> overwrites by
  id and fails if a vector's dimension does not match the dimension of the
  collection, which the first successful upsert establishes. The call of the source
  passes three parallel lists; lists of different lengths do not form entries and are
  rejected.
\<close>

record collection =
  entries :: "pystr \<rightharpoonup> (pystr \<times> embedding)"
  dimension :: "nat option"

definition upsert ::
  "pystr list \<Rightarrow> pystr list \<Rightarrow> embedding list \<Rightarrow> collection \<Rightarrow> py_error + collection" where
  "upsert ids docs embeddings c =
     (if length docs \<noteq> length ids \<or> length embeddings \<noteq> length ids then Inl VectorIndexError
      else
        let d = (case dimension c of
                   Some n \<Rightarrow> Some n
                 | None \<Rightarrow> (case embeddings of [] \<Rightarrow> None | e # es \<Rightarrow> Some (length e)))
        in if list_all (\<lambda>e. Some (length e) = d) embeddings
           then Inr \<lparr>entries = (entries c)(ids [\<mapsto>] zip docs embeddings), dimension = d\<rparr>
           else Inl VectorIndexError)"

text \<open>The calls of \<open>logging\<close> in \<open>add_documents_to_chroma\<close>, in the order of the source.\<close>

datatype log_line =
    InfoEmbeddingStarted
  | InfoEmbeddingsGenerated nat
  | ErrorEmbeddingFailed py_error
  | InfoDocumentsAdded
  | ErrorInvalidEmbeddings
  | ErrorUpsertFailed py_error

text \<open>
  \<open>add_documents_to_chroma\<close>. The embedding provider \<open>model.encode\<close> is a parameter that
  returns one vector per document or raises. Every row of the array it returns
  becomes a list under \<open>tolist()\<close>, so of the test
  \<open>isinstance(embed, list) and len(embed) > 0\<close> the length remains. The result is the
  collection after the call and the lines logged.
\<close>

definition add_documents_to_chroma ::
  "collection \<Rightarrow> chunk list \<Rightarrow> (pystr list \<Rightarrow> py_error + embedding list) \<Rightarrow>
   collection \<times> log_line list" where
  "add_documents_to_chroma knowledge_base chunks model =
     (let docs = map chunk_text chunks;
          ids = map chunk_id chunks
      in case model docs of
           Inl e \<Rightarrow> (knowledge_base, [InfoEmbeddingStarted, ErrorEmbeddingFailed e])
         | Inr embeddings \<Rightarrow>
             if list_all (\<lambda>embed. length embed > 0) embeddings then
               (case upsert ids docs embeddings knowledge_base of
                  Inr knowledge_base' \<Rightarrow>
                    (knowledge_base',
                     [InfoEmbeddingStarted, InfoEmbeddingsGenerated (length embeddings),
                      InfoDocumentsAdded])
                | Inl e \<Rightarrow>
                    (knowledge_base,
                     [InfoEmbeddingStarted, InfoEmbeddingsGenerated (length embeddings),
                      ErrorUpsertFailed e]))
             else
               (knowledge_base,
                [InfoEmbeddingStarted, InfoEmbeddingsGenerated (length embeddings),
                 ErrorInvalidEmbeddings]))"

section \<open>Answer synthesis (chains/rag\_service.py)\<close>

text \<open>\<open>html.escape(s)\<close> with \<open>quote=True\<close>.\<close>

definition escape_char :: "nat \<Rightarrow> pystr" where
  "escape_char c =
     (if c = 38 then ascii ''&amp;''
      else if c = 60 then ascii ''&lt;''
      else if c = 62 then ascii ''&gt;''
      else if c = 34 then ascii ''&quot;''
      else if c = 39 then ascii ''&#x27;''
      else [c])"

definition html_escape :: "pystr \<Rightarrow> pystr" where
  "html_escape s = concat (map escape_char s)"

text \<open>The dictionary \<open>input_data\<close> handed to \<open>chain.invoke\<close>.\<close>

record input_data =
  input_context :: "pystr list"
  input_query :: pystr
  input_token_limit :: int

text \<open>
  The string returned when the chain has no response, and the detail of the
  \<open>HTTPException\<close> raised when the chain fails (both in Russian in the source).
\<close>

definition fallback_message :: pystr where
  "fallback_message =
     [1050, 32, 1089, 1086, 1078, 1072, 1083, 1077, 1085, 1080, 1102, 44, 32, 1085, 1077, 32,
      1091, 1076, 1072, 1083, 1086, 1089, 1100, 32, 1085, 1072, 1081, 1090, 1080, 32, 1088,
      1077, 1083, 1077, 1074, 1072, 1085, 1090, 1085, 1091, 1102, 32, 1080, 1085, 1092, 1086,
      1088, 1084, 1072, 1094, 1080, 1102, 46, 32, 1055, 1086, 1087, 1088, 1086, 1073, 1091,
      1081, 1090, 1077, 32, 1087, 1077, 1088, 1077, 1092, 1086, 1088, 1084, 1091, 1083, 1080,
      1088, 1086, 1074, 1072, 1090, 1100, 32, 1074, 1086, 1087, 1088, 1086, 1089, 46]"

definition gpt_error_detail :: pystr where
  "gpt_error_detail =
     [1054, 1096, 1080, 1073, 1082, 1072, 32, 1087, 1088, 1080, 32, 1086, 1073, 1088, 1072,
      1073, 1086, 1090, 1082, 1077, 32, 1079, 1072, 1087, 1088, 1086, 1089, 1072, 32, 1082,
      32, 71, 80, 84]"

text \<open>
  The dictionary \<open>input_data\<close> of \<open>generate_response_with_gpt\<close>: the escaped
  \<open>page_content\<close> of every element of \<open>context\<close> that has the key, the escaped query
  and the token limit. An element of \<open>context\<close> is a dictionary, given by what it
  holds under \<open>page_content\<close>, if anything.
\<close>

definition build_input_data :: "pystr \<Rightarrow> pystr option list \<Rightarrow> int \<Rightarrow> input_data" where
  "build_input_data query_text context_docs token_limit =
     (let escaped_context =
            map html_escape
              (concat (map (\<lambda>d. case d of None \<Rightarrow> [] | Some c \<Rightarrow> [c]) context_docs));
          escaped_query_text = html_escape query_text
      in \<lparr>input_context = escaped_context, input_query = escaped_query_text,
          input_token_limit = token_limit\<rparr>)"

text \<open>
  \<open>generate_response_with_gpt\<close>. The text-generation collaborator enters in three
  places, each a parameter: the constructor \<open>YandexGPT(iam_token=token,
  folder_id=folder_id)\<close>, the call \<open>create_stuff_documents_chain\<close> that builds the chain
  from the model, and \<open>chain.invoke\<close>, which returns a string, returns \<open>None\<close> or
  raises. The first two stand before the \<open>try\<close> block, so what they raise leaves the
  function as it is; only \<open>chain.invoke\<close> is inside \<open>try\<close>.
\<close>

definition generate_response_with_gpt ::
  "(pystr \<Rightarrow> pystr \<Rightarrow> py_error + 'llm) \<Rightarrow>
   ('llm \<Rightarrow> py_error + (input_data \<Rightarrow> py_error + pystr option)) \<Rightarrow>
   pystr \<Rightarrow> pystr \<Rightarrow> pystr \<Rightarrow> pystr option list \<Rightarrow> int \<Rightarrow> py_error + pystr" where
  "generate_response_with_gpt yandex_gpt create_stuff_documents_chain
       token folder_id query_text context_docs token_limit =
     (case yandex_gpt token folder_id of
        Inl e \<Rightarrow> Inl e
      | Inr llm \<Rightarrow>
          (case create_stuff_documents_chain llm of
             Inl e \<Rightarrow> Inl e
           | Inr chain \<Rightarrow>
               (case chain (build_input_data query_text context_docs token_limit) of
                  Inl e \<Rightarrow> Inl (HTTPException 500 gpt_error_detail)
                | Inr None \<Rightarrow> Inr fallback_message
                | Inr (Some response) \<Rightarrow> Inr response)))"

section \<open>Scenarios\<close>

text \<open>
  Concrete inputs for the statements below: an index without entries, an index
  whose one entry lies at distance 2.0 from the query, a fresh database and a
  database that does not answer.
\<close>

definition kb_empty :: knowledge_base_query where
  "kb_empty q k = Inr (Some \<lparr>documents = Val [[]], distances = Val [[]], metadatas = Val [[]]\<rparr>)"

definition kb_one :: knowledge_base_query where
  "kb_one q k =
     Inr (Some \<lparr>documents = Val [[DocStr (ascii ''The refund window is 30 days.'')]],
                distances = Val [[2]], metadatas = Val [[[]]]\<rparr>)"

definition w0 :: world where
  "w0 = \<lparr>db = \<lparr>available = True, users = [], tickets = [], questions = [],
                next_ticket_id = 1, next_question_id = 1\<rparr>,
          add_question_calls = []\<rparr>"

definition w_down :: world where
  "w_down = \<lparr>db = \<lparr>available = False, users = [], tickets = [], questions = [],
                    next_ticket_id = 1, next_question_id = 1\<rparr>,
              add_question_calls = []\<rparr>"

text \<open>
  A model constructor that succeeds, and chain builders whose chain raises, returns
  \<open>None\<close> and returns the empty string; an embedding provider that raises and one
  that returns vectors of dimension two; a splitter that returns a short text whole
  and cuts a longer one in two at \<open>chunk_size\<close>; two chunks and an empty collection.
\<close>

definition llm_ok :: "pystr \<Rightarrow> pystr \<Rightarrow> py_error + pystr \<times> pystr" where
  "llm_ok token folder_id = Inr (token, folder_id)"

definition chain_fails ::
  "pystr \<times> pystr \<Rightarrow> py_error + (input_data \<Rightarrow> py_error + pystr option)" where
  "chain_fails llm = Inr (\<lambda>input. Inl (ProviderError (ascii ''timeout'')))"

definition chain_none ::
  "pystr \<times> pystr \<Rightarrow> py_error + (input_data \<Rightarrow> py_error + pystr option)" where
  "chain_none llm = Inr (\<lambda>input. Inr None)"

definition chain_empty ::
  "pystr \<times> pystr \<Rightarrow> py_error + (input_data \<Rightarrow> py_error + pystr option)" where
  "chain_empty llm = Inr (\<lambda>input. Inr (Some []))"

definition model_down :: "pystr list \<Rightarrow> py_error + embedding list" where
  "model_down docs = Inl (ProviderError (ascii ''network''))"

definition model_two :: "pystr list \<Rightarrow> py_error + embedding list" where
  "model_two docs = Inr (map (\<lambda>d. [real (length d), 1]) docs)"

definition split_halves :: "text_splitter \<Rightarrow> pystr \<Rightarrow> py_error + pystr list" where
  "split_halves splitter txt =
     (if int (length txt) \<le> splitter_chunk_size splitter then Inr [txt]
      else Inr [take (nat (splitter_chunk_size splitter)) txt,
                drop (nat (splitter_chunk_size splitter)) txt])"

definition example_chunks :: "chunk list" where
  "example_chunks =
     [\<lparr>chunk_id = ascii ''chunk_1'', chunk_text = ascii ''abcde''\<rparr>,
      \<lparr>chunk_id = ascii ''chunk_2'', chunk_text = ascii ''fgh''\<rparr>]"

definition kb0 :: collection where
  "kb0 = \<lparr>entries = Map.empty, dimension = None\<rparr>"

section \<open>Properties of the loops and of the ticket store\<close>

lemma inner_loop_completes:
  "metadata_at ms idx = Inr m \<Longrightarrow>
   inner_loop ms idx threshold es acc = Inr (acc @ relevant_docs threshold es)"
  by (induction es arbitrary: acc rule: relevant_docs.induct) auto

lemma inner_loop_raises:
  "metadata_at ms idx = Inl e \<Longrightarrow> es \<noteq> [] \<Longrightarrow> inner_loop ms idx threshold es acc = Inl e"
  by (cases es) auto

lemma length_relevant_docs_mono:
  "t1 \<le> t2 \<Longrightarrow> length (relevant_docs t1 es) \<le> length (relevant_docs t2 es)"
  by (induction es rule: relevant_docs.induct) auto

lemma relevant_docs_text:
  "relevant_docs threshold (zip (map DocStr texts) dists) =
     map (\<lambda>(s, d). \<lparr>doc_text = s\<rparr>) (filter (\<lambda>(s, d). d \<le> threshold) (zip texts dists))"
  by (induction texts dists rule: list_induct2') auto

lemma relevant_docs_none:
  "\<forall>(doc, d) \<in> set es. d > threshold \<Longrightarrow> relevant_docs threshold es = []"
  by (induction es rule: relevant_docs.induct) auto

lemma inner_loop_mono:
  assumes "t1 \<le> t2" and "length acc1 \<le> length acc2"
  shows "same_or_fewer (inner_loop ms idx t1 es acc1) (inner_loop ms idx t2 es acc2)"
proof (cases "metadata_at ms idx")
  case (Inl e)
  then show ?thesis using assms
    by (cases es) (auto simp: same_or_fewer_def)
next
  case (Inr m)
  then show ?thesis
    using assms length_relevant_docs_mono [OF assms(1), of es]
    by (simp add: inner_loop_completes same_or_fewer_def)
qed

lemma outer_loop_mono:
  "t1 \<le> t2 \<Longrightarrow> length acc1 \<le> length acc2 \<Longrightarrow>
   same_or_fewer (outer_loop ms t1 idx xs acc1) (outer_loop ms t2 idx xs acc2)"
proof (induction xs arbitrary: idx acc1 acc2)
  case Nil
  then show ?case by (simp add: same_or_fewer_def)
next
  case (Cons x xs)
  obtain doc_list dist_list where x: "x = (doc_list, dist_list)" by (cases x)
  have step: "same_or_fewer (inner_loop ms idx t1 (zip doc_list dist_list) acc1)
                            (inner_loop ms idx t2 (zip doc_list dist_list) acc2)"
    using Cons.prems by (rule inner_loop_mono)
  show ?case
  proof (cases "inner_loop ms idx t1 (zip doc_list dist_list) acc1")
    case (Inl e)
    then show ?thesis using step x
      by (auto simp: same_or_fewer_def split: sum.splits)
  next
    case (Inr a)
    then obtain b where b: "inner_loop ms idx t2 (zip doc_list dist_list) acc2 = Inr b"
      and ab: "length a \<le> length b"
      using step by (auto simp: same_or_fewer_def split: sum.splits)
    show ?thesis using Cons.IH [OF Cons.prems(1) ab] Inr b x by simp
  qed
qed

lemma outer_loop_single:
  "metadata_at ms idx = Inr m \<Longrightarrow>
   outer_loop ms threshold idx [(doc_list, dist_list)] acc =
     Inr (acc @ relevant_docs threshold (zip doc_list dist_list))"
  by (simp add: inner_loop_completes)

lemma outer_loop_single_none:
  assumes "\<forall>(doc, d) \<in> set (zip doc_list dist_list). d > threshold"
  shows "outer_loop ms threshold idx [(doc_list, dist_list)] [] = Inr [] \<or>
         (\<exists>e. outer_loop ms threshold idx [(doc_list, dist_list)] [] = Inl e)"
proof (cases "metadata_at ms idx")
  case (Inl e)
  then show ?thesis
    by (cases "zip doc_list dist_list") (auto simp: inner_loop_raises)
next
  case (Inr m)
  then show ?thesis
    using assms by (simp add: inner_loop_completes relevant_docs_none)
qed

lemma add_question_logs_call:
  "add_question_calls (snd (add_question user_id question_text subject from_user w)) =
     add_question_calls w @
       [\<lparr>call_user_id = user_id, call_question_text = question_text,
         call_subject = subject, call_from_user = from_user\<rparr>]"
  by (simp add: add_question_def Let_def)

lemma add_question_creates_one_ticket:
  assumes "available (db w)"
  shows "tickets (db (snd (add_question user_id question_text subject from_user w))) =
           tickets (db w) @
             [\<lparr>t_ticket_id = next_ticket_id (db w), t_telegram_id = user_id,
               t_active = True, t_closed_by_user = False\<rparr>] \<and>
         questions (db (snd (add_question user_id question_text subject from_user w))) =
           questions (db w) @
             [\<lparr>q_question_id = next_question_id (db w), q_telegram_id = user_id,
               q_ticket_id = next_ticket_id (db w), q_text = question_text,
               q_subject = subject\<rparr>]"
  using assms by (simp add: add_question_def Let_def)

lemma add_question_unavailable:
  assumes "\<not> available (db w)"
  shows "fst (add_question user_id question_text subject from_user w) = Inl DatabaseError \<and>
         db (snd (add_question user_id question_text subject from_user w)) = db w"
  using assms by (simp add: add_question_def Let_def)

section \<open>Retrieval: the threshold\<close>

text \<open>
  C2. The threshold is inclusive. For a response of the index to the one query text
  whose documents are strings, the documents returned are exactly those whose
  distance is less than or equal to the threshold, in the order of the response: an
  entry above the threshold is excluded, an entry at the threshold is returned.
\<close>

theorem threshold_boundary_inclusive:
  assumes "knowledge_base query_text k = Inr (Some results)"
    and "documents results = Val [map DocStr texts]"
    and "distances results = Val [dists]"
    and "metadatas results = Val (mds # rest)"
  shows "fst (search_similar_docs knowledge_base query_text k threshold user_id subject from_user w) =
           Inr (map (\<lambda>(s, d). \<lparr>doc_text = s\<rparr>)
                  (filter (\<lambda>(s, d). d \<le> threshold) (zip texts dists)))"
proof -
  have m: "metadata_at (metadatas results) 0 = Inr mds"
    using assms(4) by (simp add: py_index_def)
  have loop: "outer_loop (metadatas results) threshold 0 (zip [map DocStr texts] [dists]) [] =
        Inr (map (\<lambda>(s, d). \<lparr>doc_text = s\<rparr>) (filter (\<lambda>(s, d). d \<le> threshold) (zip texts dists)))"
    using outer_loop_single [OF m, of threshold "map DocStr texts" dists "[]"]
    by (simp add: relevant_docs_text)
  show ?thesis
    using assms(1,2,3) loop
    by (simp add: search_similar_docs_def search_body_def split: prod.splits sum.splits option.splits)
qed

theorem threshold_boundary_inclusive_witness:
  "fst (search_similar_docs kb_one (ascii ''refund window'') 3 2 None default_subject None w0) =
     Inr [\<lparr>doc_text = ascii ''The refund window is 30 days.''\<rparr>] \<and>
   fst (search_similar_docs kb_one (ascii ''refund window'') 3 (13/10) None default_subject None w0) =
     Inr []"
  using threshold_boundary_inclusive [where knowledge_base = kb_one
     and query_text = "ascii ''refund window''" and k = 3
     and results = "\<lparr>documents = Val [[DocStr (ascii ''The refund window is 30 days.'')]],
                     distances = Val [[2]], metadatas = Val [[[]]]\<rparr>"
     and texts = "[ascii ''The refund window is 30 days.'']" and dists = "[2]"
     and mds = "[[]]" and rest = "[]" and threshold = 2
     and user_id = None and subject = default_subject and from_user = None and w = w0]
   threshold_boundary_inclusive [where knowledge_base = kb_one
     and query_text = "ascii ''refund window''" and k = 3
     and results = "\<lparr>documents = Val [[DocStr (ascii ''The refund window is 30 days.'')]],
                     distances = Val [[2]], metadatas = Val [[[]]]\<rparr>"
     and texts = "[ascii ''The refund window is 30 days.'']" and dists = "[2]"
     and mds = "[[]]" and rest = "[]" and threshold = "13/10"
     and user_id = None and subject = default_subject and from_user = None and w = w0]
  by (simp add: kb_one_def)

text \<open>
  C4. Monotonicity. For the same query against the same index, with the same other
  arguments, a call with threshold \<open>t1\<close> returns at most as many documents as a call
  with a threshold \<open>t2\<close> that is not smaller; both calls return a list.
\<close>

theorem threshold_monotone:
  assumes "t1 \<le> t2"
  shows "\<exists>docs1 docs2.
           fst (search_similar_docs knowledge_base query_text k t1 user_id subject from_user w) = Inr docs1 \<and>
           fst (search_similar_docs knowledge_base query_text k t2 user_id subject from_user w) = Inr docs2 \<and>
           length docs1 \<le> length docs2"
proof (cases "knowledge_base query_text k")
  case (Inl e)
  then show ?thesis by (simp add: search_similar_docs_def search_body_def)
next
  case (Inr r)
  show ?thesis
  proof (cases r)
    case None
    with Inr show ?thesis by (simp add: search_similar_docs_def search_body_def)
  next
    case (Some results)
    show ?thesis
    proof (cases "dict_get (documents results)")
      case None
      with Inr Some show ?thesis by (simp add: search_similar_docs_def search_body_def)
    next
      case docs: (Some doc_lists)
      show ?thesis
      proof (cases doc_lists)
        case Nil
        with Inr Some docs show ?thesis by (simp add: search_similar_docs_def search_body_def)
      next
        case (Cons doc_list more_lists)
        show ?thesis
        proof (cases "distances results")
          case Absent
          with Inr Some docs Cons show ?thesis by (simp add: search_similar_docs_def search_body_def)
        next
          case PyNone
          with Inr Some docs Cons show ?thesis by (simp add: search_similar_docs_def search_body_def)
        next
          case (Val dists)
          have "same_or_fewer
                  (outer_loop (metadatas results) t1 0 (zip (doc_list # more_lists) dists) [])
                  (outer_loop (metadatas results) t2 0 (zip (doc_list # more_lists) dists) [])"
            using assms by (simp add: outer_loop_mono)
          with Inr Some docs Cons Val show ?thesis
            by (auto simp: search_similar_docs_def search_body_def same_or_fewer_def
                     split: sum.splits option.splits prod.splits)
        qed
      qed
    qed
  qed
qed

theorem threshold_monotone_witness:
  "\<exists>docs1 docs2.
     fst (search_similar_docs kb_one (ascii ''refund window'') 3 (13/10) None default_subject None w0) = Inr docs1 \<and>
     fst (search_similar_docs kb_one (ascii ''refund window'') 3 2 None default_subject None w0) = Inr docs2 \<and>
     length docs1 \<le> length docs2"
proof -
  have h: "(13/10 :: real) \<le> 2" by simp
  show ?thesis
    using threshold_monotone [OF h, of kb_one "ascii ''refund window''" 3 None default_subject None w0]
    by simp
qed


text \<open>
  C3 as stated fails in its last part: the empty list does not always come with an
  escalation. The index returns one entry above the threshold, no \<open>user_id\<close> is
  given: the empty list is returned, \<open>add_question\<close> is not called and no ticket is
  stored.
\<close>

theorem empty_result_without_escalation_counterexample:
  "search_similar_docs kb_one (ascii ''refund policy'') 3 1 None default_subject None w0 =
     (Inr [], w0) \<and>
   add_question_calls
     (snd (search_similar_docs kb_one (ascii ''refund policy'') 3 1 None default_subject None w0)) =
     [] \<and>
   tickets
     (db (snd (search_similar_docs kb_one (ascii ''refund policy'') 3 1 None default_subject None w0))) =
     []"
  by (simp add: search_similar_docs_def search_body_def kb_one_def w0_def py_index_def)

text \<open>
  C3, amended. If the index has no entry for the query, or every entry it returns
  lies above the threshold, \<open>search_similar_docs\<close> returns the empty list and does not
  raise, whatever the other arguments are. The escalation is made by the function
  itself before it returns: when a \<open>user_id\<close> is given and the response carries its
  list of metadata, the ticket store is the one that a single call of \<open>add_question\<close>
  with the query text leaves; when \<open>user_id\<close> is \<open>None\<close> the ticket store is untouched.
\<close>

theorem empty_result_not_an_error:
  assumes "knowledge_base query_text k = Inr (Some results)"
    and "documents results = Val [doc_list]"
    and "distances results = Val [dist_list]"
    and "\<forall>(doc, distance) \<in> set (zip doc_list dist_list). distance > threshold"
  shows "fst (search_similar_docs knowledge_base query_text k threshold user_id subject from_user w) =
           Inr [] \<and>
         (metadatas results = Val (mds # rest) \<longrightarrow>
            search_similar_docs knowledge_base query_text k threshold (Some uid) subject from_user w =
              (Inr [], snd (add_question uid query_text subject from_user w)) \<and>
            add_question_calls (snd (add_question uid query_text subject from_user w)) =
              add_question_calls w @
                [\<lparr>call_user_id = uid, call_question_text = query_text,
                  call_subject = subject, call_from_user = from_user\<rparr>]) \<and>
         search_similar_docs knowledge_base query_text k threshold None subject from_user w =
           (Inr [], w)"
proof (intro conjI impI)
  have loop: "outer_loop (metadatas results) threshold 0 [(doc_list, dist_list)] [] = Inr [] \<or>
        (\<exists>e. outer_loop (metadatas results) threshold 0 [(doc_list, dist_list)] [] = Inl e)"
    using assms(4) by (rule outer_loop_single_none)
  then show "fst (search_similar_docs knowledge_base query_text k threshold user_id subject
                    from_user w) = Inr []"
    using assms(1,2,3)
    by (auto simp: search_similar_docs_def search_body_def
             split: sum.splits option.splits prod.splits)
  from loop show "search_similar_docs knowledge_base query_text k threshold None subject
                    from_user w = (Inr [], w)"
    using assms(1,2,3)
    by (auto simp: search_similar_docs_def search_body_def)
next
  assume md: "metadatas results = Val (mds # rest)"
  then have m: "metadata_at (metadatas results) 0 = Inr mds"
    by (simp add: py_index_def)
  have completed: "outer_loop (metadatas results) threshold 0 [(doc_list, dist_list)] [] = Inr []"
    using outer_loop_single [OF m, of threshold doc_list dist_list "[]"] assms(4)
    by (simp add: relevant_docs_none)
  show "search_similar_docs knowledge_base query_text k threshold (Some uid) subject from_user w =
          (Inr [], snd (add_question uid query_text subject from_user w))"
    using assms(1,2,3) completed
    by (simp add: search_similar_docs_def search_body_def split: prod.splits sum.splits)
  show "add_question_calls (snd (add_question uid query_text subject from_user w)) =
          add_question_calls w @
            [\<lparr>call_user_id = uid, call_question_text = query_text,
              call_subject = subject, call_from_user = from_user\<rparr>]"
    by (rule add_question_logs_call)
qed

theorem empty_result_not_an_error_witness:
  "fst (search_similar_docs kb_empty (ascii ''anything'') 3 (13/10) (Some 42) default_subject None w0) =
     Inr [] \<and>
   search_similar_docs kb_empty (ascii ''anything'') 3 (13/10) (Some 42) default_subject None w0 =
     (Inr [], snd (add_question 42 (ascii ''anything'') default_subject None w0)) \<and>
   add_question_calls (snd (add_question 42 (ascii ''anything'') default_subject None w0)) =
     [\<lparr>call_user_id = 42, call_question_text = ascii ''anything'',
       call_subject = default_subject, call_from_user = None\<rparr>] \<and>
   search_similar_docs kb_empty (ascii ''anything'') 3 (13/10) None default_subject None w0 =
     (Inr [], w0) \<and>
   fst (search_similar_docs kb_one (ascii ''refund window'') 3 (13/10) (Some 42) default_subject None w0) =
     Inr []"
  using empty_result_not_an_error [where knowledge_base = kb_empty
     and query_text = "ascii ''anything''" and k = 3
     and results = "\<lparr>documents = Val [[]], distances = Val [[]], metadatas = Val [[]]\<rparr>"
     and doc_list = "[]" and dist_list = "[]" and threshold = "13/10"
     and mds = "[]" and rest = "[]" and uid = 42
     and user_id = "Some 42" and subject = default_subject and from_user = None and w = w0]
   empty_result_not_an_error [where knowledge_base = kb_one
     and query_text = "ascii ''refund window''" and k = 3
     and results = "\<lparr>documents = Val [[DocStr (ascii ''The refund window is 30 days.'')]],
                     distances = Val [[2]], metadatas = Val [[[]]]\<rparr>"
     and doc_list = "[DocStr (ascii ''The refund window is 30 days.'')]" and dist_list = "[2]"
     and threshold = "13/10" and mds = "[[]]" and rest = "[]" and uid = 42
     and user_id = "Some 42" and subject = default_subject and from_user = None and w = w0]
  by (simp add: kb_empty_def kb_one_def w0_def)

section \<open>Escalation\<close>

text \<open>
  C10. Without a user id there is no ticket: when \<open>user_id\<close> is \<open>None\<close> and no
  returned entry passes the threshold, \<open>search_similar_docs\<close> returns the empty list
  and leaves the ticket store as it was, so \<open>add_question\<close> is not called.
\<close>

theorem no_user_id_no_ticket:
  assumes "knowledge_base query_text k = Inr (Some results)"
    and "documents results = Val [doc_list]"
    and "distances results = Val [dist_list]"
    and "\<forall>(doc, distance) \<in> set (zip doc_list dist_list). distance > threshold"
  shows "search_similar_docs knowledge_base query_text k threshold None subject from_user w =
           (Inr [], w)"
proof -
  have "outer_loop (metadatas results) threshold 0 [(doc_list, dist_list)] [] = Inr [] \<or>
        (\<exists>e. outer_loop (metadatas results) threshold 0 [(doc_list, dist_list)] [] = Inl e)"
    using assms(4) by (rule outer_loop_single_none)
  then show ?thesis
    using assms(1,2,3)
    by (auto simp: search_similar_docs_def search_body_def)
qed

theorem no_user_id_no_ticket_witness:
  "search_similar_docs kb_one (ascii ''refund window'') 3 (13/10) None default_subject None w0 =
     (Inr [], w0) \<and> add_question_calls w0 = []"
  using no_user_id_no_ticket [where knowledge_base = kb_one
     and query_text = "ascii ''refund window''" and k = 3
     and results = "\<lparr>documents = Val [[DocStr (ascii ''The refund window is 30 days.'')]],
                     distances = Val [[2]], metadatas = Val [[[]]]\<rparr>"
     and doc_list = "[DocStr (ascii ''The refund window is 30 days.'')]" and dist_list = "[2]"
     and threshold = "13/10" and subject = default_subject and from_user = None and w = w0]
  by (simp add: kb_one_def w0_def)

text \<open>
  C1 as stated fails: for an empty index and no \<open>user_id\<close>, no document passes and
  yet \<open>add_question\<close> is not called.
\<close>

theorem escalation_without_user_id_counterexample:
  "fst (search_similar_docs kb_empty (ascii ''anything'') 3 (13/10) None default_subject None w0) = Inr [] \<and>
   add_question_calls
     (snd (search_similar_docs kb_empty (ascii ''anything'') 3 (13/10) None default_subject None w0)) = []"
  by (simp add: search_similar_docs_def search_body_def kb_empty_def w0_def)

text \<open>
  C1, amended. For a response of the index to the one query text whose documents are
  strings, exactly one of two things happens. If some entry passes the threshold, the
  entries that pass are returned and the ticket store is untouched. If none passes,
  the empty list is returned; with a \<open>user_id\<close> the ticket store is the one that a
  single call of \<open>add_question\<close> leaves, and that call carries the query text as
  \<open>question_text\<close> and the argument \<open>subject\<close>; without a \<open>user_id\<close> the ticket store is
  untouched.
\<close>

theorem escalation_exclusive:
  assumes "knowledge_base query_text k = Inr (Some results)"
    and "documents results = Val [map DocStr texts]"
    and "distances results = Val [dists]"
    and "metadatas results = Val (mds # rest)"
  shows "(if \<exists>(s, d) \<in> set (zip texts dists). d \<le> threshold
          then search_similar_docs knowledge_base query_text k threshold user_id subject from_user w =
                 (Inr (map (\<lambda>(s, d). \<lparr>doc_text = s\<rparr>)
                         (filter (\<lambda>(s, d). d \<le> threshold) (zip texts dists))), w) \<and>
               filter (\<lambda>(s, d). d \<le> threshold) (zip texts dists) \<noteq> []
          else search_similar_docs knowledge_base query_text k threshold (Some uid) subject from_user w =
                 (Inr [], snd (add_question uid query_text subject from_user w)) \<and>
               add_question_calls (snd (add_question uid query_text subject from_user w)) =
                 add_question_calls w @
                   [\<lparr>call_user_id = uid, call_question_text = query_text,
                     call_subject = subject, call_from_user = from_user\<rparr>] \<and>
               search_similar_docs knowledge_base query_text k threshold None subject from_user w =
                 (Inr [], w))"
proof -
  let ?kept = "filter (\<lambda>(s, d). d \<le> threshold) (zip texts dists)"
  have m: "metadata_at (metadatas results) 0 = Inr mds"
    using assms(4) by (simp add: py_index_def)
  have loop: "outer_loop (metadatas results) threshold 0 (zip [map DocStr texts] [dists]) [] =
        Inr (map (\<lambda>(s, d). \<lparr>doc_text = s\<rparr>) ?kept)"
    using outer_loop_single [OF m, of threshold "map DocStr texts" dists "[]"]
    by (simp add: relevant_docs_text)
  show ?thesis
  proof (cases "\<exists>(s, d) \<in> set (zip texts dists). d \<le> threshold")
    case True
    then have ne: "?kept \<noteq> []"
      by (auto simp: filter_empty_conv)
    show ?thesis
      using True ne assms(1,2,3) loop
      by (simp add: search_similar_docs_def search_body_def split: option.splits)
  next
    case False
    then have e: "?kept = []"
      by (auto simp: filter_empty_conv)
    show ?thesis
      using False e assms(1,2,3) loop
      by (simp add: search_similar_docs_def search_body_def add_question_logs_call
               split: prod.splits sum.splits)
  qed
qed

theorem escalation_exclusive_witness:
  "search_similar_docs kb_one (ascii ''refund window'') 3 2 (Some 42) default_subject None w0 =
     (Inr [\<lparr>doc_text = ascii ''The refund window is 30 days.''\<rparr>], w0) \<and>
   search_similar_docs kb_one (ascii ''refund window'') 3 (13/10) (Some 42) default_subject None w0 =
     (Inr [], snd (add_question 42 (ascii ''refund window'') default_subject None w0)) \<and>
   add_question_calls (snd (add_question 42 (ascii ''refund window'') default_subject None w0)) =
     [\<lparr>call_user_id = 42, call_question_text = ascii ''refund window'',
       call_subject = default_subject, call_from_user = None\<rparr>]"
  using escalation_exclusive [where knowledge_base = kb_one
     and query_text = "ascii ''refund window''" and k = 3
     and results = "\<lparr>documents = Val [[DocStr (ascii ''The refund window is 30 days.'')]],
                     distances = Val [[2]], metadatas = Val [[[]]]\<rparr>"
     and texts = "[ascii ''The refund window is 30 days.'']" and dists = "[2]"
     and mds = "[[]]" and rest = "[]" and threshold = 2 and uid = 42
     and user_id = "Some 42" and subject = default_subject and from_user = None and w = w0]
   escalation_exclusive [where knowledge_base = kb_one
     and query_text = "ascii ''refund window''" and k = 3
     and results = "\<lparr>documents = Val [[DocStr (ascii ''The refund window is 30 days.'')]],
                     distances = Val [[2]], metadatas = Val [[[]]]\<rparr>"
     and texts = "[ascii ''The refund window is 30 days.'']" and dists = "[2]"
     and mds = "[[]]" and rest = "[]" and threshold = "13/10" and uid = 42
     and user_id = "Some 42" and subject = default_subject and from_user = None and w = w0]
  by (simp add: kb_one_def w0_def)

text \<open>
  C9. The behaviour of the code when the ticket cannot be created: the database does
  not answer, \<open>add_question\<close> raises, and \<open>search_similar_docs\<close> returns the empty
  list as it does after a ticket was created; no question is stored.
\<close>

theorem ticket_failure_returns_empty_list:
  "search_similar_docs kb_empty (ascii ''anything'') 3 (13/10) (Some 42) default_subject None w_down =
     (Inr [],
      w_down\<lparr>add_question_calls :=
               [\<lparr>call_user_id = 42, call_question_text = ascii ''anything'',
                 call_subject = default_subject, call_from_user = None\<rparr>]\<rparr>) \<and>
   fst (add_question 42 (ascii ''anything'') default_subject None w_down) = Inl DatabaseError \<and>
   questions (db (snd (search_similar_docs kb_empty (ascii ''anything'') 3 (13/10) (Some 42)
                         default_subject None w_down))) = []"
  by (simp add: search_similar_docs_def search_body_def kb_empty_def w_down_def
                add_question_def py_index_def Let_def)

section \<open>Ingestion\<close>

lemma map_upds_twice: "(m(xs [\<mapsto>] ys))(xs [\<mapsto>] ys) = m(xs [\<mapsto>] ys)"
  by (rule ext) (simp add: map_upds_def map_add_def split: option.splits)

lemma upsert_again:
  assumes "upsert ids docs embeddings c = Inr c'"
  shows "upsert ids docs embeddings c' = Inr c'"
proof -
  from assms have len: "length docs = length ids" "length embeddings = length ids"
    by (auto simp: upsert_def split: if_splits)
  show ?thesis
  proof (cases "dimension c")
    case (Some n)
    with assms len show ?thesis
      by (auto simp: upsert_def map_upds_twice split: if_splits)
  next
    case None
    with assms len show ?thesis
      by (cases embeddings) (auto simp: upsert_def map_upds_twice split: if_splits)
  qed
qed

lemma add_documents_to_chroma_again:
  "fst (add_documents_to_chroma (fst (add_documents_to_chroma knowledge_base chunks model)) chunks model) =
   fst (add_documents_to_chroma knowledge_base chunks model)"
proof (cases "model (map chunk_text chunks)")
  case (Inl e)
  then show ?thesis by (simp add: add_documents_to_chroma_def)
next
  case (Inr embeddings)
  show ?thesis
  proof (cases "list_all (\<lambda>embed. length embed > 0) embeddings")
    case False
    with Inr show ?thesis by (simp add: add_documents_to_chroma_def)
  next
    case True
    show ?thesis
    proof (cases "upsert (map chunk_id chunks) (map chunk_text chunks) embeddings knowledge_base")
      case (Inl e)
      with Inr True show ?thesis by (simp add: add_documents_to_chroma_def)
    next
      case c': (Inr c')
      from upsert_again [OF c'] Inr True c' show ?thesis
        by (simp add: add_documents_to_chroma_def)
    qed
  qed
qed

lemma map_enumerate_index:
  "map (\<lambda>p. g (fst p)) (enumerate n xs) = map g [n..<n + length xs]"
proof -
  have "map (\<lambda>p. g (fst p)) (enumerate n xs) = map g (map fst (enumerate n xs))"
    by (simp only: map_map o_def)
  then show ?thesis
    by (simp only: map_fst_enumerate)
qed

lemma chunk_ids_by_position:
  assumes "split_text_into_chunks split_text txt chunk_size chunk_overlap = Inr chunks"
  shows "map chunk_id chunks = map (\<lambda>i. ascii ''chunk_'' @ py_str (i + 1)) [0..<length chunks]"
proof -
  let ?f = "\<lambda>i. ascii ''chunk_'' @ py_str (i + 1)"
  from assms obtain xs where
    chunks: "chunks = map (\<lambda>(i, c). \<lparr>chunk_id = ?f i, chunk_text = c\<rparr>) (enumerate 0 xs)"
    by (auto simp: split_text_into_chunks_def split: sum.splits)
  have len: "length chunks = length xs"
    by (simp add: chunks)
  have "map chunk_id chunks = map (\<lambda>p. ?f (fst p)) (enumerate 0 xs)"
    by (simp add: chunks split_def comp_def)
  also have "\<dots> = map ?f [0..<0 + length xs]"
    by (rule map_enumerate_index)
  finally show ?thesis
    by (simp add: len)
qed

lemma ingest_example:
  "entries (fst (add_documents_to_chroma kb0 example_chunks model_two)) (ascii ''chunk_2'') =
     Some (ascii ''fgh'', [3, 1])"
  by (simp add: add_documents_to_chroma_def kb0_def example_chunks_def model_two_def
        upsert_def ascii_def)

lemma split_example:
  "split_text_into_chunks split_halves (ascii ''abcdefgh'') 5 2 = Inr example_chunks"
  by (simp add: split_text_into_chunks_def RecursiveCharacterTextSplitter_def split_halves_def
        example_chunks_def ascii_def py_str.simps enumerate_eq_zip upt_rec)

text \<open>
  C6. If the embedding provider raises on the texts of the chunks, the call logs the
  error and returns before any upsert: the collection is the one it was given.
\<close>

theorem embedding_failure_aborts_batch:
  assumes "model (map chunk_text chunks) = Inl e"
  shows "add_documents_to_chroma knowledge_base chunks model =
           (knowledge_base, [InfoEmbeddingStarted, ErrorEmbeddingFailed e])"
  using assms by (simp add: add_documents_to_chroma_def)

theorem embedding_failure_aborts_batch_witness:
  "add_documents_to_chroma kb0 [\<lparr>chunk_id = ascii ''chunk_1'', chunk_text = ascii ''abc''\<rparr>] model_down =
     (kb0, [InfoEmbeddingStarted, ErrorEmbeddingFailed (ProviderError (ascii ''network''))])"
  using embedding_failure_aborts_batch [of model_down
          "[\<lparr>chunk_id = ascii ''chunk_1'', chunk_text = ascii ''abc''\<rparr>]"
          "ProviderError (ascii ''network'')" kb0]
  by (simp add: model_down_def)

text \<open>
  C7. The ids of the chunks are \<open>chunk_1\<close>, \<open>chunk_2\<close>, ... by position, and ingesting
  the chunks of a text a second time leaves the collection as the first ingestion
  left it.
\<close>

theorem ingestion_idempotent:
  assumes "split_text_into_chunks split_text txt chunk_size chunk_overlap = Inr chunks"
  shows "map chunk_id chunks = map (\<lambda>i. ascii ''chunk_'' @ py_str (i + 1)) [0..<length chunks] \<and>
         fst (add_documents_to_chroma
                (fst (add_documents_to_chroma knowledge_base chunks model)) chunks model) =
         fst (add_documents_to_chroma knowledge_base chunks model)"
  using chunk_ids_by_position [OF assms] add_documents_to_chroma_again by simp

theorem ingestion_idempotent_witness:
  "split_text_into_chunks split_halves (ascii ''abcdefgh'') 5 2 = Inr example_chunks \<and>
   map chunk_id example_chunks =
     map (\<lambda>i. ascii ''chunk_'' @ py_str (i + 1)) [0..<length example_chunks] \<and>
   fst (add_documents_to_chroma
          (fst (add_documents_to_chroma kb0 example_chunks model_two)) example_chunks model_two) =
   fst (add_documents_to_chroma kb0 example_chunks model_two) \<and>
   entries (fst (add_documents_to_chroma kb0 example_chunks model_two)) (ascii ''chunk_2'') =
     Some (ascii ''fgh'', [3, 1])"
  using split_example ingestion_idempotent [OF split_example, of kb0 model_two] ingest_example
  by simp

text \<open>
  C8 as stated fails on both sides of the boundary: with \<open>chunk_overlap\<close> equal to
  \<open>chunk_size\<close> the constructor accepts the parameters and the call returns chunks,
  and with a negative \<open>chunk_overlap\<close>, which is below \<open>chunk_size\<close>, the call fails.
\<close>

theorem chunking_parameter_validation_counterexample:
  "split_text_into_chunks split_halves (ascii ''abcdefgh'') 50 50 =
     Inr [\<lparr>chunk_id = ascii ''chunk_1'', chunk_text = ascii ''abcdefgh''\<rparr>] \<and>
   split_text_into_chunks split_halves (ascii ''abcdefgh'') 5 (- 1) = Inl ValueError"
  by (simp add: split_text_into_chunks_def RecursiveCharacterTextSplitter_def split_halves_def
        ascii_def py_str.simps enumerate_eq_zip)

text \<open>
  C8, amended. The call fails with the \<open>ValueError\<close> of the splitter's constructor
  when \<open>chunk_overlap\<close> is greater than \<open>chunk_size\<close>, when \<open>chunk_size\<close> is not
  positive and when \<open>chunk_overlap\<close> is negative. For a positive \<open>chunk_size\<close> and
  \<open>0 <= chunk_overlap <= chunk_size\<close> the constructor accepts the parameters, and the
  call returns one chunk for every piece that the library's \<open>split_text\<close> returns, in
  order, or fails with what \<open>split_text\<close> raises.
\<close>

theorem chunking_parameter_validation:
  "(chunk_overlap > chunk_size \<or> chunk_size \<le> 0 \<or> chunk_overlap < 0 \<longrightarrow>
      split_text_into_chunks split_text txt chunk_size chunk_overlap = Inl ValueError) \<and>
   (0 < chunk_size \<and> 0 \<le> chunk_overlap \<and> chunk_overlap \<le> chunk_size \<longrightarrow>
      (\<forall>pieces.
         split_text \<lparr>splitter_chunk_size = chunk_size, splitter_chunk_overlap = chunk_overlap\<rparr> txt =
           Inr pieces \<longrightarrow>
         (\<exists>chunks. split_text_into_chunks split_text txt chunk_size chunk_overlap = Inr chunks \<and>
                   map chunk_text chunks = pieces)) \<and>
      (\<forall>e.
         split_text \<lparr>splitter_chunk_size = chunk_size, splitter_chunk_overlap = chunk_overlap\<rparr> txt =
           Inl e \<longrightarrow>
         split_text_into_chunks split_text txt chunk_size chunk_overlap = Inl e))"
proof (intro conjI impI allI)
  assume "chunk_overlap > chunk_size \<or> chunk_size \<le> 0 \<or> chunk_overlap < 0"
  then show "split_text_into_chunks split_text txt chunk_size chunk_overlap = Inl ValueError"
    by (auto simp: split_text_into_chunks_def RecursiveCharacterTextSplitter_def)
next
  fix pieces
  assume ok: "0 < chunk_size \<and> 0 \<le> chunk_overlap \<and> chunk_overlap \<le> chunk_size"
    and sp: "split_text \<lparr>splitter_chunk_size = chunk_size,
                          splitter_chunk_overlap = chunk_overlap\<rparr> txt = Inr pieces"
  let ?chunks = "map (\<lambda>(i, c). \<lparr>chunk_id = ascii ''chunk_'' @ py_str (i + 1), chunk_text = c\<rparr>)
                   (enumerate 0 pieces)"
  have "split_text_into_chunks split_text txt chunk_size chunk_overlap = Inr ?chunks"
    using ok sp by (simp add: split_text_into_chunks_def RecursiveCharacterTextSplitter_def)
  moreover have "map chunk_text ?chunks = map snd (enumerate 0 pieces)"
    by (simp add: split_def comp_def)
  then have "map chunk_text ?chunks = pieces"
    by (simp only: map_snd_enumerate)
  ultimately show "\<exists>chunks. split_text_into_chunks split_text txt chunk_size chunk_overlap =
                     Inr chunks \<and> map chunk_text chunks = pieces"
    by blast
next
  fix e
  assume "0 < chunk_size \<and> 0 \<le> chunk_overlap \<and> chunk_overlap \<le> chunk_size"
    and "split_text \<lparr>splitter_chunk_size = chunk_size,
                      splitter_chunk_overlap = chunk_overlap\<rparr> txt = Inl e"
  then show "split_text_into_chunks split_text txt chunk_size chunk_overlap = Inl e"
    by (simp add: split_text_into_chunks_def RecursiveCharacterTextSplitter_def)
qed

theorem chunking_parameter_validation_witness:
  "split_text_into_chunks split_halves (ascii ''abcdefgh'') 50 60 = Inl ValueError \<and>
   (\<exists>chunks. split_text_into_chunks split_halves (ascii ''abcdefgh'') 50 50 = Inr chunks \<and>
             map chunk_text chunks = [ascii ''abcdefgh''])"
  using chunking_parameter_validation [of 50 60 split_halves "ascii ''abcdefgh''"]
        chunking_parameter_validation [of 50 50 split_halves "ascii ''abcdefgh''"]
  by (simp add: split_halves_def ascii_def)

section \<open>Answer synthesis\<close>

lemma generate_response_construction_error:
  "yandex_gpt token folder_id = Inl e \<Longrightarrow>
   generate_response_with_gpt yandex_gpt create_stuff_documents_chain
     token folder_id query_text context_docs token_limit = Inl e"
  by (simp add: generate_response_with_gpt_def)

text \<open>
  C5 as stated fails: when the chain raises, the function raises an
  \<open>HTTPException\<close> instead of returning the fallback string, and an empty string
  returned by the chain is passed on as it is.
\<close>

theorem generation_failure_counterexample:
  "generate_response_with_gpt llm_ok chain_fails (ascii ''t'') (ascii ''f'')
     (ascii ''How do I pay?'') [] 100 = Inl (HTTPException 500 gpt_error_detail) \<and>
   generate_response_with_gpt llm_ok chain_empty (ascii ''t'') (ascii ''f'')
     (ascii ''How do I pay?'') [] 100 = Inr [] \<and>
   Inr [] \<noteq> (Inr fallback_message :: py_error + pystr)"
  by (simp add: generate_response_with_gpt_def llm_ok_def chain_fails_def chain_empty_def
        fallback_message_def)

text \<open>
  C5, amended. Once the model and the chain are constructed: if \<open>chain.invoke\<close> on the
  input built from the query and the context returns \<open>None\<close>, the function returns the
  fixed fallback string; if it raises, the function raises \<open>HTTPException\<close> with
  status 500 and a fixed detail, so the error of \<open>chain.invoke\<close> is not passed on, but
  the call fails.
\<close>

theorem generation_failure_handling:
  assumes "yandex_gpt token folder_id = Inr llm"
    and "create_stuff_documents_chain llm = Inr chain"
  shows "(chain (build_input_data query_text context_docs token_limit) = Inr None \<longrightarrow>
            generate_response_with_gpt yandex_gpt create_stuff_documents_chain
              token folder_id query_text context_docs token_limit = Inr fallback_message) \<and>
         (chain (build_input_data query_text context_docs token_limit) = Inl e \<longrightarrow>
            generate_response_with_gpt yandex_gpt create_stuff_documents_chain
              token folder_id query_text context_docs token_limit =
                Inl (HTTPException 500 gpt_error_detail))"
  using assms by (simp add: generate_response_with_gpt_def)

theorem generation_failure_handling_witness:
  "generate_response_with_gpt llm_ok chain_none (ascii ''t'') (ascii ''f'')
     (ascii ''How do I pay?'') [Some (ascii ''Pay by card.'')] 100 = Inr fallback_message \<and>
   generate_response_with_gpt llm_ok chain_fails (ascii ''t'') (ascii ''f'')
     (ascii ''How do I pay?'') [Some (ascii ''Pay by card.'')] 100 =
     Inl (HTTPException 500 gpt_error_detail)"
  using generation_failure_handling [where yandex_gpt = llm_ok
          and create_stuff_documents_chain = chain_none
          and token = "ascii ''t''" and folder_id = "ascii ''f''"
          and llm = "(ascii ''t'', ascii ''f'')" and chain = "\<lambda>input. Inr None"
          and query_text = "ascii ''How do I pay?''"
          and context_docs = "[Some (ascii ''Pay by card.'')]" and token_limit = 100
          and e = "ProviderError (ascii ''timeout'')"]
        generation_failure_handling [where yandex_gpt = llm_ok
          and create_stuff_documents_chain = chain_fails
          and token = "ascii ''t''" and folder_id = "ascii ''f''"
          and llm = "(ascii ''t'', ascii ''f'')"
          and chain = "\<lambda>input. Inl (ProviderError (ascii ''timeout''))"
          and query_text = "ascii ''How do I pay?''"
          and context_docs = "[Some (ascii ''Pay by card.'')]" and token_limit = 100
          and e = "ProviderError (ascii ''timeout'')"]
  by (simp add: llm_ok_def chain_none_def chain_fails_def)

end
